theory Spec2Isabelle
  imports Complex_Main
begin

section \<open>Strings as Python uses them\<close>

text \<open>
  Python \<open>str\<close> values are modelled as \<open>string\<close> (lists of \<open>char\<close>).  The character
  classes below are the ASCII part of \<open>str.isupper\<close>, \<open>str.lower\<close> and \<open>str.isspace\<close>;
  the scores of the source are Python floats and are modelled as exact reals.
\<close>

definition upper_chars :: string where
  "upper_chars = ''ABCDEFGHIJKLMNOPQRSTUVWXYZ''"

definition lower_chars :: string where
  "lower_chars = ''abcdefghijklmnopqrstuvwxyz''"

definition isupper :: "char \<Rightarrow> bool" where
  "isupper c = (c \<in> set upper_chars)"

definition lower_char :: "char \<Rightarrow> char" where
  "lower_char c = (case map_of (zip upper_chars lower_chars) c of Some d \<Rightarrow> d | None \<Rightarrow> c)"

definition lower :: "string \<Rightarrow> string" where
  "lower s = map lower_char s"

definition isspace :: "char \<Rightarrow> bool" where
  "isspace c = (c \<in> set [CHR 0x09, CHR 0x0A, CHR 0x0B, CHR 0x0C, CHR 0x0D,
                           CHR 0x1C, CHR 0x1D, CHR 0x1E, CHR 0x1F, CHR 0x20])"

text \<open>\<open>startswith p s\<close> is \<open>s.startswith(p)\<close>; \<open>str_in kw s\<close> is Python's \<open>kw in s\<close>.\<close>

fun startswith :: "string \<Rightarrow> string \<Rightarrow> bool" where
  "startswith [] s = True"
| "startswith (p # ps) [] = False"
| "startswith (p # ps) (c # cs) = (p = c \<and> startswith ps cs)"

fun str_in :: "string \<Rightarrow> string \<Rightarrow> bool" where
  "str_in kw [] = (kw = [])"
| "str_in kw (c # cs) = (startswith kw (c # cs) \<or> str_in kw cs)"

text \<open>\<open>split s\<close> is \<open>s.split()\<close>: maximal runs of non-whitespace characters.\<close>

fun split_from :: "string \<Rightarrow> string \<Rightarrow> string list" where
  "split_from cur [] = (if cur = [] then [] else [cur])"
| "split_from cur (c # cs) =
     (if isspace c then (if cur = [] then split_from [] cs else cur # split_from [] cs)
      else split_from (cur @ [c]) cs)"

definition split :: "string \<Rightarrow> string list" where
  "split s = split_from [] s"

text \<open>\<open>any_in kws s\<close> is \<open>any(kw in s for kw in kws)\<close>.\<close>

definition any_in :: "string list \<Rightarrow> string \<Rightarrow> bool" where
  "any_in kws s = list_ex (\<lambda>kw. str_in kw s) kws"

text \<open>\<open>count_in kws s\<close> is \<open>sum(1 for kw in kws if kw in s)\<close>.\<close>

definition count_in :: "string list \<Rightarrow> string \<Rightarrow> nat" where
  "count_in kws s = length (filter (\<lambda>kw. str_in kw s) kws)"

section \<open>Exceptions\<close>

datatype exn =
    IndexError
  | KeyError
  | TypeError
  | AttributeError
  | ValueError string
  | ToolError string

definition bind :: "exn + 'a \<Rightarrow> ('a \<Rightarrow> exn + 'b) \<Rightarrow> exn + 'b" where
  "bind m f = (case m of Inl e \<Rightarrow> Inl e | Inr x \<Rightarrow> f x)"

section \<open>Conversation messages\<close>

text \<open>
  The answer text, kept structured: the model's reply, the two fallback templates (nothing
  found; top result, up to two further results, count and mean score), and the apology
  of the error response, which quotes the exception.  A result's content is rendered
  into the text as it is, also when it is \<open>None\<close>.
\<close>

datatype answer =
    Llm_answer string
  | Nothing_found
  | Found "string option" "string option list" nat real
  | Apology exn

text \<open>The \<open>content\<close> of a message: the user's query, or the answer given to it.\<close>

datatype message_text = Query_text string | Answer_text answer

record message_meta =
  meta_confidence :: real
  meta_sources :: "string set"
  meta_reasoning_steps :: nat

record ConversationMessage =
  message_id :: string
  role :: string
  message_content :: message_text
  timestamp :: nat
  message_metadata :: "message_meta option"

text \<open>The \<open>context\<close> dictionary that \<open>process_query\<close> hands to \<open>retrieve\<close>.\<close>

record retrieval_context =
  context_conversation_id :: string
  context_messages :: "ConversationMessage list"

section \<open>Query analysis (\<open>QueryAnalyzer\<close>)\<close>

datatype RetrievalStrategy = VECTOR_ONLY | GRAPH_ONLY | LOGICAL_FILTER | HYBRID | ADAPTIVE

fun strategy_value :: "RetrievalStrategy \<Rightarrow> string" where
  "strategy_value VECTOR_ONLY = ''vector_only''"
| "strategy_value GRAPH_ONLY = ''graph_only''"
| "strategy_value LOGICAL_FILTER = ''logical_filter''"
| "strategy_value HYBRID = ''hybrid''"
| "strategy_value ADAPTIVE = ''adaptive''"

text \<open>
  \<open>RetrievalQuery\<close>.  The \<open>filters\<close> and \<open>context\<close> fields of the source are optional
  dictionaries; \<open>analyze_query\<close> leaves both at \<open>None\<close>, \<open>retrieve\<close> stores the caller's
  context, and no retrieval path reads either.
\<close>

record RetrievalQuery =
  query_id :: string
  query_text :: string
  intent :: string
  entities_mentioned :: "string list"
  query_type :: string
  complexity_score :: real
  filters :: "(string \<times> string) list option"
  query_context :: "retrieval_context option"

definition entity_keywords :: "string list" where
  "entity_keywords = [''who'', ''what'', ''where'', ''when'', ''which'']"

definition relationship_keywords :: "string list" where
  "relationship_keywords = [''how'', ''why'', ''relationship'', ''connected'', ''related'']"

definition filter_keywords :: "string list" where
  "filter_keywords = [''filter'', ''where'', ''having'', ''with'', ''without'']"

definition determine_intent :: "string \<Rightarrow> string" where
  "determine_intent query_lower =
     (if any_in entity_keywords query_lower then ''entity_lookup''
      else if any_in relationship_keywords query_lower then ''relationship_exploration''
      else if any_in filter_keywords query_lower then ''filtered_search''
      else ''general_search'')"

text \<open>
  \<open>_extract_entities\<close>: the loop reads \<open>word[0]\<close>, which raises \<open>IndexError\<close> on an empty
  word; the model keeps that branch.
\<close>

fun extract_entities_loop :: "string list \<Rightarrow> exn + string list" where
  "extract_entities_loop [] = Inr []"
| "extract_entities_loop (w # ws) =
     (case w of
        [] \<Rightarrow> Inl IndexError
      | c # _ \<Rightarrow>
          (case extract_entities_loop ws of
             Inl e \<Rightarrow> Inl e
           | Inr es \<Rightarrow> Inr (if isupper c \<and> length w > 2 then w # es else es)))"

definition extract_entities :: "string \<Rightarrow> exn + string list" where
  "extract_entities text = extract_entities_loop (split text)"

definition determine_query_type :: "string \<Rightarrow> string" where
  "determine_query_type query_lower =
     (if str_in ''similar'' query_lower \<or> str_in ''like'' query_lower then ''similarity''
      else if str_in ''path'' query_lower \<or> str_in ''connect'' query_lower then ''path_finding''
      else if str_in ''all'' query_lower \<or> str_in ''list'' query_lower then ''comprehensive''
      else ''targeted'')"

definition logical_ops :: "string list" where
  "logical_ops = [''and'', ''or'', ''not'', ''but'', ''except'']"

definition question_words :: "string list" where
  "question_words = [''who'', ''what'', ''where'', ''when'', ''why'', ''how'']"

definition calculate_complexity :: "string \<Rightarrow> string list \<Rightarrow> real" where
  "calculate_complexity text entities =
     (let c1 = min (real (length text) / 200) 0.3;
          c2 = c1 + min (real (length entities) / 10) 0.3;
          op_count = count_in logical_ops (lower text);
          c3 = c2 + min (real op_count / 5) 0.2;
          q_count = count_in question_words (lower text);
          c4 = c3 + min (real q_count / 3) 0.2
      in min c4 1.0)"

text \<open>\<open>analyze_query\<close>; the fresh \<open>uuid4\<close> of the source is the parameter \<open>qid\<close>.\<close>

definition analyze_query :: "string \<Rightarrow> string \<Rightarrow> exn + RetrievalQuery" where
  "analyze_query qid text =
     (let query_lower = lower text;
          intent' = determine_intent query_lower
      in case extract_entities text of
           Inl e \<Rightarrow> Inl e
         | Inr entities \<Rightarrow>
             Inr \<lparr> query_id = qid, query_text = text, intent = intent',
                   entities_mentioned = entities,
                   query_type = determine_query_type query_lower,
                   complexity_score = calculate_complexity text entities,
                   filters = None, query_context = None \<rparr>)"

section \<open>Strategy selection (\<open>StrategySelector\<close>)\<close>

definition strategy_rules :: "(string \<times> RetrievalStrategy) list" where
  "strategy_rules =
     [(''entity_lookup'', VECTOR_ONLY),
      (''relationship_exploration'', GRAPH_ONLY),
      (''filtered_search'', LOGICAL_FILTER),
      (''general_search'', HYBRID)]"

definition select_strategy :: "RetrievalQuery \<Rightarrow> RetrievalStrategy" where
  "select_strategy query =
     (if complexity_score query < 0.3 then VECTOR_ONLY
      else if complexity_score query > 0.7 then ADAPTIVE
      else (case map_of strategy_rules (intent query) of Some s \<Rightarrow> s | None \<Rightarrow> HYBRID))"

section \<open>Retrieval results, trace records and the external stores\<close>

text \<open>
  The \<open>reasoning\<close> text of a result is kept structured (the source renders it with a
  float format); nested metadata dictionaries are flattened to key/value lists.  The
  \<open>content\<close> of a vector result is whatever the index returns as the document, which is
  \<open>None\<close> for an entry stored without its text.
\<close>

datatype result_reasoning =
    Semantic_similarity real
  | Graph_traversal_from string
  | General_graph_search

record RetrievalResult =
  result_id :: string
  content :: "string option"
  score :: real
  source_type :: string
  metadata :: "(string \<times> string) list"
  reasoning :: "result_reasoning option"

text \<open>One constructor per \<open>{"step": ..., "details": ...}\<close> record appended to the chain.\<close>

datatype trace_step =
    Query_analysis string real "string list" string
  | Vector_search_unavailable
  | Vector_search string
  | Vector_results nat
  | Vector_search_error exn
  | Graph_search_unavailable
  | Graph_search "string list"
  | Graph_results nat
  | Graph_search_error exn
  | Logical_filter
  | Filter_results nat
  | Hybrid_search
  | Hybrid_combination nat nat nat
  | Adaptive_search
  | Adaptive_decision real nat
  | Error_step exn

record RetrievalResponse =
  response_query_id :: string
  strategy_used :: string
  results :: "RetrievalResult list"
  reasoning_chain :: "trace_step list"
  total_results :: nat
  confidence_score :: real

text \<open>What \<open>chroma_client.query\<close> returns: four parallel lists of lists.\<close>

record chroma_reply =
  ids :: "string list list"
  distances :: "real list list"
  documents :: "string option list list"
  metadatas :: "(string \<times> string) list list list"

record graph_node =
  node_id :: string
  node_label :: string

record graph_edge =
  edge_from :: graph_node
  edge_type :: string
  edge_weight :: "real option"
  edge_to :: graph_node

text \<open>
  The collaborators of \<open>EnhancedAgenticRetrieval\<close>.  \<open>chroma_query text n\<close> is the
  embedding step followed by the index query with \<open>n_results = n\<close>; \<open>find_entities name\<close>,
  \<open>neighborhood entity_id limit\<close> and \<open>general_graph text limit\<close> are the three Cypher
  queries run in a Neo4j session.  Each of them either raises or returns its rows.
\<close>

record env =
  vector_search_available :: bool
  graph_traversal_available :: bool
  chroma_query :: "string \<Rightarrow> int \<Rightarrow> exn + chroma_reply"
  find_entities :: "string \<Rightarrow> exn + graph_node list"
  neighborhood :: "string \<Rightarrow> int \<Rightarrow> exn + graph_edge list"
  general_graph :: "string \<Rightarrow> int \<Rightarrow> exn + graph_edge list"

text \<open>\<open>item xs i\<close> is \<open>xs[i]\<close> for a non-negative index.\<close>

definition item :: "'a list \<Rightarrow> nat \<Rightarrow> exn + 'a" where
  "item xs i = (if i < length xs then Inr (xs ! i) else Inl IndexError)"

text \<open>\<open>py_take n xs\<close> is the slice \<open>xs[:n]\<close>; a negative \<open>n\<close> counts from the end.\<close>

definition py_take :: "int \<Rightarrow> 'a list \<Rightarrow> 'a list" where
  "py_take n xs = (if 0 \<le> n then take (nat n) xs else take (nat (int (length xs) + n)) xs)"

definition mean :: "real list \<Rightarrow> real" where
  "mean xs = sum_list xs / real (length xs)"

definition strip :: "string \<Rightarrow> string" where
  "strip s = rev (dropWhile isspace (rev (dropWhile isspace s)))"

section \<open>The retrieval strategies (\<open>EnhancedAgenticRetrieval\<close>)\<close>

definition vector_row :: "chroma_reply \<Rightarrow> nat \<Rightarrow> exn + RetrievalResult" where
  "vector_row sr i =
     bind (item (distances sr) 0) (\<lambda>ds. bind (item ds i) (\<lambda>d.
     bind (item (ids sr) 0) (\<lambda>is. bind (item is i) (\<lambda>rid.
     bind (item (documents sr) 0) (\<lambda>docs. bind (item docs i) (\<lambda>doc.
     bind (item (metadatas sr) 0) (\<lambda>ms. bind (item ms i) (\<lambda>m.
       Inr \<lparr> result_id = rid, content = doc, score = 1 - d, source_type = ''vector'',
             metadata = m, reasoning = Some (Semantic_similarity (1 - d)) \<rparr>))))))))"

fun vector_rows :: "chroma_reply \<Rightarrow> nat list \<Rightarrow> exn + RetrievalResult list" where
  "vector_rows sr [] = Inr []"
| "vector_rows sr (i # is) =
     bind (vector_row sr i) (\<lambda>r. bind (vector_rows sr is) (\<lambda>rs. Inr (r # rs)))"

definition vector_search :: "env \<Rightarrow> RetrievalQuery \<Rightarrow> int \<Rightarrow> exn + RetrievalResult list" where
  "vector_search e query max_results =
     bind (chroma_query e (query_text query) max_results) (\<lambda>sr.
       case ids sr of
         [] \<Rightarrow> Inr []
       | ids0 # _ \<Rightarrow> if ids0 = [] then Inr [] else vector_rows sr [0..<length ids0])"

definition vector_retrieval ::
  "env \<Rightarrow> RetrievalQuery \<Rightarrow> int \<Rightarrow> trace_step list \<Rightarrow> RetrievalResult list \<times> trace_step list" where
  "vector_retrieval e query max_results chain =
     (if \<not> vector_search_available e then ([], chain @ [Vector_search_unavailable])
      else
        let chain1 = chain @ [Vector_search (query_text query)]
        in case vector_search e query max_results of
             Inr rs \<Rightarrow> (rs, chain1 @ [Vector_results (length rs)])
           | Inl err \<Rightarrow> ([], chain1 @ [Vector_search_error err]))"

definition edge_score :: "graph_edge \<Rightarrow> real" where
  "edge_score r = (case edge_weight r of Some w \<Rightarrow> w | None \<Rightarrow> 0.5)"

definition neighbor_result :: "string \<Rightarrow> graph_edge \<Rightarrow> RetrievalResult" where
  "neighbor_result entity_name r =
     \<lparr> result_id = ''graph_'' @ node_id (edge_from r) @ ''_'' @ node_id (edge_to r),
       content = Some (node_label (edge_from r) @ '' '' @ edge_type r @ '' ''
                       @ node_label (edge_to r)),
       score = edge_score r, source_type = ''graph'',
       metadata = [(''center_entity'', node_label (edge_from r)),
                   (''connected_entity'', node_label (edge_to r)),
                   (''relationship'', edge_type r)],
       reasoning = Some (Graph_traversal_from entity_name) \<rparr>"

definition general_result :: "graph_edge \<Rightarrow> RetrievalResult" where
  "general_result r =
     \<lparr> result_id = ''graph_'' @ node_id (edge_from r) @ ''_'' @ node_id (edge_to r),
       content = Some (node_label (edge_from r) @ '' '' @ edge_type r @ '' ''
                       @ node_label (edge_to r)),
       score = edge_score r, source_type = ''graph'',
       metadata = [(''entity1'', node_label (edge_from r)),
                   (''entity2'', node_label (edge_to r)),
                   (''relationship'', edge_type r)],
       reasoning = Some General_graph_search \<rparr>"

text \<open>The inner loop over the nodes found for one entity name.\<close>

fun graph_records :: "env \<Rightarrow> int \<Rightarrow> string \<Rightarrow> graph_node list \<Rightarrow> exn + RetrievalResult list" where
  "graph_records e limit entity_name [] = Inr []"
| "graph_records e limit entity_name (n # ns) =
     bind (neighborhood e (node_id n) limit) (\<lambda>edges.
     bind (graph_records e limit entity_name ns) (\<lambda>rest.
       Inr (map (neighbor_result entity_name) edges @ rest)))"

text \<open>The outer loop over \<open>query.entities_mentioned\<close>.\<close>

fun graph_entities :: "env \<Rightarrow> int \<Rightarrow> string list \<Rightarrow> exn + RetrievalResult list" where
  "graph_entities e limit [] = Inr []"
| "graph_entities e limit (entity_name # names) =
     bind (find_entities e entity_name) (\<lambda>found.
     bind (graph_records e limit entity_name found) (\<lambda>rs.
     bind (graph_entities e limit names) (\<lambda>rest. Inr (rs @ rest))))"

definition graph_search :: "env \<Rightarrow> RetrievalQuery \<Rightarrow> int \<Rightarrow> exn + RetrievalResult list" where
  "graph_search e query max_results =
     (if entities_mentioned query \<noteq> [] then
        graph_entities e (max_results div int (length (entities_mentioned query)))
          (entities_mentioned query)
      else
        bind (general_graph e (query_text query) max_results) (\<lambda>edges.
          Inr (map general_result edges)))"

definition graph_retrieval ::
  "env \<Rightarrow> RetrievalQuery \<Rightarrow> int \<Rightarrow> trace_step list \<Rightarrow> RetrievalResult list \<times> trace_step list" where
  "graph_retrieval e query max_results chain =
     (if \<not> graph_traversal_available e then ([], chain @ [Graph_search_unavailable])
      else
        let chain1 = chain @ [Graph_search (entities_mentioned query)]
        in case graph_search e query max_results of
             Inr rs \<Rightarrow> (py_take max_results rs, chain1 @ [Graph_results (length rs)])
           | Inl err \<Rightarrow> ([], chain1 @ [Graph_search_error err]))"

definition filter_retrieval ::
  "RetrievalQuery \<Rightarrow> int \<Rightarrow> trace_step list \<Rightarrow> RetrievalResult list \<times> trace_step list" where
  "filter_retrieval query max_results chain =
     (let chain1 = chain @ [Logical_filter];
          rs = []
      in (rs, chain1 @ [Filter_results (length rs)]))"

text \<open>
  The de-duplication loop of \<open>_hybrid_retrieval\<close>, with its \<open>seen_content\<close> set.  The key
  is \<open>result.content.lower().strip()\<close>, which raises \<open>AttributeError\<close> on a result whose
  content is \<open>None\<close>.
\<close>

fun dedup :: "string set \<Rightarrow> RetrievalResult list \<Rightarrow> exn + RetrievalResult list" where
  "dedup seen [] = Inr []"
| "dedup seen (r # rs) =
     (case content r of
        None \<Rightarrow> Inl AttributeError
      | Some c \<Rightarrow>
          (let content_key = strip (lower c)
           in if content_key \<in> seen then dedup seen rs
              else bind (dedup (insert content_key seen) rs) (\<lambda>rest. Inr (r # rest))))"

text \<open>\<open>list.sort(key=score, reverse=True)\<close>: a stable sort, descending by score.\<close>

definition sort_by_score :: "RetrievalResult list \<Rightarrow> RetrievalResult list" where
  "sort_by_score rs = sort_key (\<lambda>x. - score x) rs"

text \<open>
  \<open>_hybrid_retrieval\<close>.  Both tools handle their own failures; an exception of the
  de-duplication loop leaves the function, with the chain as the tools left it.
\<close>

definition hybrid_retrieval ::
  "env \<Rightarrow> RetrievalQuery \<Rightarrow> int \<Rightarrow> trace_step list
     \<Rightarrow> (exn + RetrievalResult list) \<times> trace_step list" where
  "hybrid_retrieval e query max_results chain =
     (let chain1 = chain @ [Hybrid_search];
          (vector_results, chain2) = vector_retrieval e query (max_results div 2) chain1;
          (graph_results, chain3) = graph_retrieval e query (max_results div 2) chain2;
          all_results = vector_results @ graph_results
      in case dedup {} all_results of
           Inl err \<Rightarrow> (Inl err, chain3)
         | Inr deduplicated \<Rightarrow>
             let unique_results = sort_by_score deduplicated
             in (Inr (py_take max_results unique_results),
                 chain3 @ [Hybrid_combination (length vector_results) (length graph_results)
                             (length unique_results)]))"

text \<open>
  \<open>_adaptive_retrieval\<close>; an exception of its hybrid run leaves it before the
  \<open>adaptive_decision\<close> step is appended.
\<close>

definition adaptive_retrieval ::
  "env \<Rightarrow> RetrievalQuery \<Rightarrow> int \<Rightarrow> trace_step list
     \<Rightarrow> (exn + RetrievalResult list) \<times> trace_step list" where
  "adaptive_retrieval e query max_results chain =
     (let chain1 = chain @ [Adaptive_search];
          (initial_results, chain2) = vector_retrieval e query (max_results div 3) chain1;
          (outcome, chain3) =
            (if length initial_results > 0 \<and> mean (map score initial_results) > 0.7 then
               let (graph_results, c) = graph_retrieval e query (max_results div 3) chain2
               in (Inr (initial_results @ graph_results), c)
             else hybrid_retrieval e query max_results chain2)
      in case outcome of
           Inl err \<Rightarrow> (Inl err, chain3)
         | Inr all_results \<Rightarrow>
             (Inr (py_take max_results all_results),
              chain3 @ [Adaptive_decision
                          (if initial_results \<noteq> [] then mean (map score initial_results) else 0)
                          (length all_results)]))"

definition calculate_confidence :: "RetrievalResult list \<Rightarrow> RetrievalQuery \<Rightarrow> real" where
  "calculate_confidence rs query =
     (if rs = [] then 0.0
      else
        let avg_score = mean (map score rs);
            count_factor = min (real (length rs) / 10) 1.0;
            complexity_factor = 1.0 - complexity_score query * 0.3;
            source_types = set (map source_type rs);
            diversity_factor = real (card source_types) / 3;
            confidence = avg_score * 0.5 + count_factor * 0.2 + complexity_factor * 0.2
                         + diversity_factor * 0.1
        in min confidence 1.0)"

text \<open>
  The strategy dispatch inside the \<open>try\<close> block of \<open>retrieve\<close>.  The chain is a list
  mutated in place, so it is returned also when the block raises.  With the strategy an
  enumeration value, the final \<open>raise ValueError\<close> of the source has no case left.
\<close>

text \<open>The first record of every chain: the analysis and the strategy that will run.\<close>

definition analysis_step :: "RetrievalQuery \<Rightarrow> RetrievalStrategy \<Rightarrow> trace_step" where
  "analysis_step query strategy =
     Query_analysis (intent query) (complexity_score query) (entities_mentioned query)
       (strategy_value strategy)"

definition run_strategy ::
  "env \<Rightarrow> RetrievalStrategy \<Rightarrow> RetrievalQuery \<Rightarrow> int \<Rightarrow> trace_step list
     \<Rightarrow> (exn + RetrievalResult list) \<times> trace_step list" where
  "run_strategy e strategy query max_results chain =
     (case strategy of
        VECTOR_ONLY \<Rightarrow>
          (let (rs, chain') = vector_retrieval e query max_results chain in (Inr rs, chain'))
      | GRAPH_ONLY \<Rightarrow>
          (let (rs, chain') = graph_retrieval e query max_results chain in (Inr rs, chain'))
      | LOGICAL_FILTER \<Rightarrow>
          (let (rs, chain') = filter_retrieval query max_results chain in (Inr rs, chain'))
      | HYBRID \<Rightarrow> hybrid_retrieval e query max_results chain
      | ADAPTIVE \<Rightarrow> adaptive_retrieval e query max_results chain)"

text \<open>
  \<open>retrieve\<close>.  The query analysis runs before the \<open>try\<close> block, so an exception there
  would reach the caller (\<open>Inl\<close>); an exception inside the block gives the empty response
  with an \<open>error\<close> step.  The wall-clock field \<open>processing_time_ms\<close> is left out.
\<close>

definition retrieve ::
  "env \<Rightarrow> string \<Rightarrow> string \<Rightarrow> RetrievalStrategy option \<Rightarrow> int
     \<Rightarrow> retrieval_context option \<Rightarrow> exn + RetrievalResponse" where
  "retrieve e qid text strategy max_results ctx =
     bind (analyze_query qid text) (\<lambda>query0.
       let query = query0\<lparr>query_context := ctx\<rparr>;
           strategy' = (case strategy of None \<Rightarrow> select_strategy query | Some s \<Rightarrow> s);
           chain0 = [analysis_step query strategy']
       in case run_strategy e strategy' query max_results chain0 of
            (Inr rs, chain) \<Rightarrow>
              Inr \<lparr> response_query_id = query_id query,
                    strategy_used = strategy_value strategy',
                    results = rs,
                    reasoning_chain = chain,
                    total_results = length rs,
                    confidence_score = calculate_confidence rs query \<rparr>
          | (Inl err, chain) \<Rightarrow>
              Inr \<lparr> response_query_id = query_id query,
                    strategy_used = strategy_value strategy',
                    results = [],
                    reasoning_chain = chain @ [Error_step err],
                    total_results = 0,
                    confidence_score = 0.0 \<rparr>)"

section \<open>Conversation memory (\<open>ConversationMemory\<close>)\<close>

text \<open>
  \<open>collections.deque(maxlen=n)\<close>: the constructor rejects a negative bound, and \<open>append\<close>
  adds on the right and then drops the leftmost element when the bound is exceeded.
\<close>

record 'a deque =
  maxlen :: nat
  items :: "'a list"

definition new_deque :: "int \<Rightarrow> exn + 'a deque" where
  "new_deque n =
     (if n < 0 then Inl (ValueError ''maxlen must be non-negative'')
      else Inr \<lparr> maxlen = nat n, items = [] \<rparr>)"

definition deque_append :: "'a deque \<Rightarrow> 'a \<Rightarrow> 'a deque" where
  "deque_append d x =
     (let xs = items d @ [x]
      in d\<lparr> items := (if length xs > maxlen d then tl xs else xs) \<rparr>)"

record conversation_meta =
  created_at :: nat
  last_updated :: nat
  message_count :: nat

record ConversationMemory =
  max_messages :: int
  context_window :: int
  conversations :: "string \<rightharpoonup> ConversationMessage deque"
  conversation_metadata :: "string \<rightharpoonup> conversation_meta"

text \<open>The constructor; its defaults are \<open>max_messages = 20\<close> and \<open>context_window = 6\<close>.\<close>

definition new_memory :: "int \<Rightarrow> int \<Rightarrow> ConversationMemory" where
  "new_memory max_msgs window =
     \<lparr> max_messages = max_msgs, context_window = window,
       conversations = Map.empty, conversation_metadata = Map.empty \<rparr>"

text \<open>\<open>add_message\<close>; \<open>now\<close> is the reading of \<open>datetime.now()\<close> during the call.\<close>

definition add_message ::
  "ConversationMemory \<Rightarrow> nat \<Rightarrow> string \<Rightarrow> ConversationMessage \<Rightarrow> exn + ConversationMemory" where
  "add_message mem now conversation_id message =
     bind (if conversations mem conversation_id = None then
             bind (new_deque (max_messages mem)) (\<lambda>d.
               Inr (mem\<lparr> conversations := (conversations mem)(conversation_id \<mapsto> d),
                         conversation_metadata := (conversation_metadata mem)(conversation_id \<mapsto>
                           \<lparr> created_at = now, last_updated = now, message_count = 0 \<rparr>) \<rparr>))
           else Inr mem) (\<lambda>mem1.
     case conversations mem1 conversation_id of
       None \<Rightarrow> Inl KeyError
     | Some d \<Rightarrow>
         (case conversation_metadata mem1 conversation_id of
            None \<Rightarrow> Inl KeyError
          | Some md \<Rightarrow>
              Inr (mem1\<lparr> conversations :=
                          (conversations mem1)(conversation_id \<mapsto> deque_append d message),
                        conversation_metadata :=
                          (conversation_metadata mem1)(conversation_id \<mapsto>
                            md\<lparr> last_updated := now,
                                message_count := message_count md + 1 \<rparr>) \<rparr>)))"



text \<open>The \<open>total_messages\<close> entry of \<open>get_conversation_summary\<close>: the buffer's length.\<close>

definition summary_total_messages :: "ConversationMemory \<Rightarrow> string \<Rightarrow> nat option" where
  "summary_total_messages mem conversation_id =
     (case conversations mem conversation_id of
        None \<Rightarrow> None
      | Some d \<Rightarrow> Some (length (items d)))"

text \<open>A run of \<open>add_message\<close> calls, each with its clock reading, conversation and message.\<close>

fun add_messages ::
  "ConversationMemory \<Rightarrow> (nat \<times> string \<times> ConversationMessage) list \<Rightarrow> exn + ConversationMemory" where
  "add_messages mem [] = Inr mem"
| "add_messages mem ((now, cid, m) # calls) =
     bind (add_message mem now cid m) (\<lambda>mem'. add_messages mem' calls)"

text \<open>The messages that a run of calls adds to one conversation, in call order.\<close>

definition messages_for :: "string \<Rightarrow> (nat \<times> string \<times> ConversationMessage) list \<Rightarrow> ConversationMessage list" where
  "messages_for cid calls = map (\<lambda>(now, c, m). m) (filter (\<lambda>(now, c, m). c = cid) calls)"

section \<open>Reasoning engine and reasoning stream\<close>

text \<open>
  A \<open>ReasoningStep\<close> without its identifier, timing and the input/output dictionaries.
\<close>

record ReasoningStep =
  step_type :: string
  description :: string
  confidence :: real



















section \<open>The strategies without their trace\<close>

text \<open>The results of a strategy that returned, and no results for one that raised.\<close>

definition results_of :: "exn + 'a list \<Rightarrow> 'a list" where
  "results_of outcome = (case outcome of Inl err \<Rightarrow> [] | Inr rs \<Rightarrow> rs)"

text \<open>The merge of the hybrid strategy: de-duplicate, sort, slice.\<close>

definition merge_results :: "int \<Rightarrow> RetrievalResult list \<Rightarrow> exn + RetrievalResult list" where
  "merge_results max_results all_results =
     bind (dedup {} all_results) (\<lambda>deduplicated.
       Inr (py_take max_results (sort_by_score deduplicated)))"

text \<open>
  The adaptive strategy as the specification words it, on the results alone: a
  vector-only pass requesting \<open>max_results div 3\<close> results; when that pass is non-empty with
  a mean score above 0.7, its results followed by those of a graph pass at
  \<open>max_results div 3\<close>; otherwise the outcome of the hybrid strategy at the full
  \<open>max_results\<close>; in either case sliced with \<open>[:max_results]\<close>.
\<close>

definition adaptive_spec :: "env \<Rightarrow> RetrievalQuery \<Rightarrow> int \<Rightarrow> exn + RetrievalResult list" where
  "adaptive_spec e query max_results =
     (let first_pass = fst (vector_retrieval e query (max_results div 3) [])
      in bind (if first_pass \<noteq> [] \<and> mean (map score first_pass) > 0.7
               then Inr (first_pass @ fst (graph_retrieval e query (max_results div 3) []))
               else fst (hybrid_retrieval e query max_results []))
           (\<lambda>all_results. Inr (py_take max_results all_results)))"

text \<open>
  The outcome of each strategy, and the strategy \<open>retrieve\<close> runs: the caller's, or the
  selector's when the caller gives none.
\<close>

definition strategy_results ::
  "env \<Rightarrow> RetrievalStrategy \<Rightarrow> RetrievalQuery \<Rightarrow> int \<Rightarrow> exn + RetrievalResult list" where
  "strategy_results e strategy query max_results =
     (case strategy of
        VECTOR_ONLY \<Rightarrow> Inr (fst (vector_retrieval e query max_results []))
      | GRAPH_ONLY \<Rightarrow> Inr (fst (graph_retrieval e query max_results []))
      | LOGICAL_FILTER \<Rightarrow> Inr []
      | HYBRID \<Rightarrow> fst (hybrid_retrieval e query max_results [])
      | ADAPTIVE \<Rightarrow> adaptive_spec e query max_results)"

definition chosen_strategy :: "RetrievalStrategy option \<Rightarrow> RetrievalQuery \<Rightarrow> RetrievalStrategy" where
  "chosen_strategy strategy query = (case strategy of None \<Rightarrow> select_strategy query | Some s \<Rightarrow> s)"

text \<open>
  A result list is ranked when the scores never increase along it.
\<close>

definition ranked_descending :: "RetrievalResult list \<Rightarrow> bool" where
  "ranked_descending rs = sorted_wrt (\<lambda>a b. score b \<le> score a) rs"

section \<open>Invariant of the conversation memory\<close>

text \<open>
  What the memory holds for one conversation after the messages \<open>hc\<close> have been added to
  it: nothing when there were none, otherwise a buffer of the given bound with the last
  messages and a count of all of them.
\<close>

definition conversation_holds ::
  "nat \<Rightarrow> ConversationMessage list \<Rightarrow> ConversationMessage deque option
     \<Rightarrow> conversation_meta option \<Rightarrow> bool" where
  "conversation_holds cap hc buf meta =
     (if hc = [] then buf = None \<and> meta = None
      else (\<exists>d md. buf = Some d \<and> maxlen d = cap \<and>
                  items d = drop (length hc - cap) hc \<and>
                  meta = Some md \<and> message_count md = length hc))"

definition memory_holds ::
  "nat \<Rightarrow> (string \<Rightarrow> ConversationMessage list) \<Rightarrow> ConversationMemory \<Rightarrow> bool" where
  "memory_holds cap h mem \<longleftrightarrow>
     max_messages mem = int cap \<and>
     (\<forall>c. conversation_holds cap (h c) (conversations mem c) (conversation_metadata mem c))"


section \<open>Failing tools\<close>





section \<open>Concrete inputs\<close>

text \<open>A query record with a given intent and complexity, for instantiating the theorems.\<close>

definition query_with :: "string \<Rightarrow> real \<Rightarrow> RetrievalQuery" where
  "query_with i c =
     \<lparr> query_id = ''q1'', query_text = ''apple'', intent = i, entities_mentioned = [],
       query_type = ''targeted'', complexity_score = c, filters = None, query_context = None \<rparr>"


text \<open>A run of \<open>n\<close> user messages added to one conversation, numbered by their clock.\<close>

definition numbered_message :: "nat \<Rightarrow> ConversationMessage" where
  "numbered_message i =
     \<lparr> message_id = ''m'', role = ''user'', message_content = Query_text ''hello'',
       timestamp = i, message_metadata = None \<rparr>"

definition numbered_calls :: "string \<Rightarrow> nat \<Rightarrow> (nat \<times> string \<times> ConversationMessage) list" where
  "numbered_calls cid n = map (\<lambda>i. (i, cid, numbered_message i)) [0..<n]"

text \<open>
  A store where the vector index returns three documents at distances 0.1, 0.15 and 0.2
  (scores 0.9, 0.85 and 0.8, mean 0.85) and the graph returns one edge of weight 0.9; a
  store whose only document lies at distance 2; and the first store with the vector
  index, the graph, or both unreachable.
\<close>

definition apple_edge :: graph_edge where
  "apple_edge = \<lparr> edge_from = \<lparr> node_id = ''e1'', node_label = ''Apple'' \<rparr>,
                 edge_type = ''FOUNDED_BY'', edge_weight = Some 0.9,
                 edge_to = \<lparr> node_id = ''e2'', node_label = ''Steve Jobs'' \<rparr> \<rparr>"

definition apple_env :: env where
  "apple_env =
     \<lparr> vector_search_available = True, graph_traversal_available = True,
       chroma_query = (\<lambda>t n. Inr \<lparr> ids = [[''d1'', ''d2'', ''d3'']],
                                  distances = [[0.1, 0.15, 0.2]],
                                  documents = [[Some ''Apple makes phones'',
                                                Some ''Apple is in Cupertino'',
                                                Some ''Apple sells laptops'']],
                                  metadatas = [[[], [], []]] \<rparr>),
       find_entities = (\<lambda>name. Inr [\<lparr> node_id = ''e1'', node_label = ''Apple'' \<rparr>]),
       neighborhood = (\<lambda>i n. Inr [apple_edge]),
       general_graph = (\<lambda>t n. Inr [apple_edge]) \<rparr>"

definition far_env :: env where
  "far_env =
     \<lparr> vector_search_available = True, graph_traversal_available = False,
       chroma_query = (\<lambda>t n. Inr \<lparr> ids = [[''d1'']], distances = [[2]],
                                  documents = [[Some ''pear'']], metadatas = [[[]]] \<rparr>),
       find_entities = (\<lambda>name. Inr []),
       neighborhood = (\<lambda>i n. Inr []),
       general_graph = (\<lambda>t n. Inr []) \<rparr>"









section \<open>Properties of strategy selection\<close>

text \<open>
  Claim C2.  The selected strategy depends on the query's intent and complexity score
  only, with a fixed priority: a complexity below 0.3 gives vector-only whatever the
  intent; otherwise a complexity above 0.7 gives adaptive; otherwise the intent is looked
  up: entity_lookup gives vector-only, relationship_exploration graph-only,
  filtered_search filter-only and general_search hybrid.
\<close>

theorem select_strategy_rule_table:
  "(complexity_score q < 0.3 \<longrightarrow> select_strategy q = VECTOR_ONLY) \<and>
   (0.7 < complexity_score q \<longrightarrow> select_strategy q = ADAPTIVE) \<and>
   (0.3 \<le> complexity_score q \<and> complexity_score q \<le> 0.7 \<longrightarrow>
      (intent q = ''entity_lookup'' \<longrightarrow> select_strategy q = VECTOR_ONLY) \<and>
      (intent q = ''relationship_exploration'' \<longrightarrow> select_strategy q = GRAPH_ONLY) \<and>
      (intent q = ''filtered_search'' \<longrightarrow> select_strategy q = LOGICAL_FILTER) \<and>
      (intent q = ''general_search'' \<longrightarrow> select_strategy q = HYBRID)) \<and>
   (intent q = intent q' \<and> complexity_score q = complexity_score q' \<longrightarrow>
      select_strategy q = select_strategy q')"
  by (simp add: select_strategy_def strategy_rules_def)

theorem select_strategy_rule_table_witness:
  "select_strategy (query_with ''relationship_exploration'' 0.1) = VECTOR_ONLY \<and>
   select_strategy (query_with ''entity_lookup'' 0.9) = ADAPTIVE \<and>
   select_strategy (query_with ''entity_lookup'' 0.5) = VECTOR_ONLY \<and>
   select_strategy (query_with ''relationship_exploration'' 0.5) = GRAPH_ONLY \<and>
   select_strategy (query_with ''filtered_search'' 0.5) = LOGICAL_FILTER \<and>
   select_strategy (query_with ''general_search'' 0.5) = HYBRID \<and>
   select_strategy (query_with ''general_search'' 0.5)
     = select_strategy ((query_with ''general_search'' 0.5)\<lparr>query_text := ''pear''\<rparr>)"
  using select_strategy_rule_table [of "query_with ''relationship_exploration'' 0.1"
          "query_with ''relationship_exploration'' 0.1"]
        select_strategy_rule_table [of "query_with ''entity_lookup'' 0.9"
          "query_with ''entity_lookup'' 0.9"]
        select_strategy_rule_table [of "query_with ''entity_lookup'' 0.5"
          "query_with ''entity_lookup'' 0.5"]
        select_strategy_rule_table [of "query_with ''relationship_exploration'' 0.5"
          "query_with ''relationship_exploration'' 0.5"]
        select_strategy_rule_table [of "query_with ''filtered_search'' 0.5"
          "query_with ''filtered_search'' 0.5"]
        select_strategy_rule_table [of "query_with ''general_search'' 0.5"
          "(query_with ''general_search'' 0.5)\<lparr>query_text := ''pear''\<rparr>"]
  by (auto simp add: query_with_def)

section \<open>Properties of the two example queries\<close>

text \<open>
  Claim C7, as the code has it by design.  For the query "Who works for Apple Inc.?" the
  analyzer classifies the intent as entity_lookup, extracts the three capitalised words
  Who, Apple and Inc.? as entities, and computes a complexity score that is the sum of
  0.625 (length 0.125, entities 0.3, one question word 0.2) and the connective term
  \<open>min(op_count/5, 0.2)\<close>; so the score is at least 0.625 and not below 0.3.  With the score
  0.625 of these three contributions the selector chooses vector-only, through the
  intent rule for entity_lookup and not through the rule for a complexity below 0.3.
\<close>

theorem apple_query_complexity_by_design:
  "\<not> isl (analyze_query qid ''Who works for Apple Inc.?'') \<and>
   intent (projr (analyze_query qid ''Who works for Apple Inc.?'')) = ''entity_lookup'' \<and>
   entities_mentioned (projr (analyze_query qid ''Who works for Apple Inc.?''))
     = [''Who'', ''Apple'', ''Inc.?''] \<and>
   complexity_score (projr (analyze_query qid ''Who works for Apple Inc.?''))
     = 0.625 + min (real (count_in logical_ops (lower ''Who works for Apple Inc.?'')) / 5) 0.2 \<and>
   0.625 \<le> complexity_score (projr (analyze_query qid ''Who works for Apple Inc.?'')) \<and>
   \<not> complexity_score (projr (analyze_query qid ''Who works for Apple Inc.?'')) < 0.3 \<and>
   select_strategy
     ((projr (analyze_query qid ''Who works for Apple Inc.?''))\<lparr>complexity_score := 0.625\<rparr>)
     = VECTOR_ONLY"
  by code_simp

text \<open>
  Claim C7 as stated (a complexity score of about 0.25, below 0.3) fails for that query.
\<close>

theorem apple_query_not_below_threshold:
  "\<not> complexity_score (projr (analyze_query ''q1'' ''Who works for Apple Inc.?'')) < 0.3"
  by code_simp

text \<open>
  Claim C8, as the code has it.  For the query "How are Apple Inc. and Steve Jobs related,
  and what companies are they connected to?" the analyzer finds the entity keyword
  "what" before it tries the relationship keywords, so the intent is entity_lookup; the
  complexity score is 1, above 0.3 and above 0.7, so the selected strategy is adaptive.
\<close>

theorem related_query_is_entity_lookup:
  "\<not> isl (analyze_query qid
      ''How are Apple Inc. and Steve Jobs related, and what companies are they connected to?'') \<and>
   intent (projr (analyze_query qid
      ''How are Apple Inc. and Steve Jobs related, and what companies are they connected to?''))
     = ''entity_lookup'' \<and>
   complexity_score (projr (analyze_query qid
      ''How are Apple Inc. and Steve Jobs related, and what companies are they connected to?''))
     = 1 \<and>
   select_strategy (projr (analyze_query qid
      ''How are Apple Inc. and Steve Jobs related, and what companies are they connected to?''))
     = ADAPTIVE"
  by code_simp

text \<open>
  Claim C8 as stated (the intent is relationship_exploration) fails for that query.
\<close>

theorem related_query_not_relationship:
  "intent (projr (analyze_query ''q1''
      ''How are Apple Inc. and Steve Jobs related, and what companies are they connected to?''))
     \<noteq> ''relationship_exploration''"
  by code_simp

section \<open>Properties of the conversation memory\<close>

lemma window_step:
  "(if cap < length (drop (length h - cap) h @ [m]) then tl (drop (length h - cap) h @ [m])
    else drop (length h - cap) h @ [m])
   = drop (length (h @ [m]) - cap) (h @ [m])"
proof (cases "length h < cap")
  case True
  then show ?thesis by simp
next
  case False
  then have le: "cap \<le> length h" by simp
  then have full: "cap < length (drop (length h - cap) h @ [m])" by simp
  have tl_drop1: "\<And>xs :: 'a list. tl xs = drop 1 xs"
    by (simp add: drop_Suc)
  have "tl (drop (length h - cap) h @ [m]) = drop 1 (drop (length h - cap) h @ [m])"
    by (rule tl_drop1)
  also have "\<dots> = drop 1 (drop (length h - cap) (h @ [m]))"
    by simp
  also have "\<dots> = drop (length (h @ [m]) - cap) (h @ [m])"
    using le by (simp add: Suc_diff_le del: drop_append)
  finally show ?thesis using full by (simp only: if_True)
qed

lemma new_memory_holds: "0 \<le> n \<Longrightarrow> memory_holds (nat n) (\<lambda>c. []) (new_memory n w)"
  by (simp add: memory_holds_def conversation_holds_def new_memory_def)

lemma add_message_holds:
  assumes "memory_holds cap h mem"
  shows "\<exists>mem'. add_message mem now c m = Inr mem' \<and> memory_holds cap (h(c := h c @ [m])) mem'"
proof -
  from assms have cap: "max_messages mem = int cap"
    and all: "\<And>x. conversation_holds cap (h x) (conversations mem x) (conversation_metadata mem x)"
    by (simp_all add: memory_holds_def)
  have "\<exists>d md. add_message mem now c m =
          Inr (mem\<lparr> conversations := (conversations mem)(c \<mapsto> d),
                    conversation_metadata := (conversation_metadata mem)(c \<mapsto> md) \<rparr>) \<and>
          conversation_holds cap (h c @ [m]) (Some d) (Some md)"
  proof (cases "h c = []")
    case True
    with all[of c] have none: "conversations mem c = None"
      by (simp add: conversation_holds_def)
    have "add_message mem now c m =
       Inr (mem\<lparr> conversations := (conversations mem)(c \<mapsto> deque_append \<lparr>maxlen = cap, items = []\<rparr> m),
       conversation_metadata := (conversation_metadata mem)(c \<mapsto> \<lparr> created_at = now, last_updated = now, message_count = 1 \<rparr>) \<rparr>)"
      using none cap by (simp add: add_message_def bind_def new_deque_def)
    moreover have "conversation_holds cap (h c @ [m]) (Some (deque_append \<lparr>maxlen = cap, items = []\<rparr> m))
        (Some \<lparr> created_at = now, last_updated = now, message_count = 1 \<rparr>)"
      using True by (cases cap) (simp_all add: conversation_holds_def deque_append_def Let_def)
    ultimately show ?thesis by blast
  next
    case False
    with all[of c] obtain d md where d: "conversations mem c = Some d" "maxlen d = cap"
      "items d = drop (length (h c) - cap) (h c)"
      "conversation_metadata mem c = Some md" "message_count md = length (h c)"
      by (auto simp: conversation_holds_def)
    have "add_message mem now c m =
       Inr (mem\<lparr> conversations := (conversations mem)(c \<mapsto> deque_append d m),
       conversation_metadata := (conversation_metadata mem)(c \<mapsto> md\<lparr> last_updated := now, message_count := message_count md + 1 \<rparr>) \<rparr>)"
      using d by (simp add: add_message_def bind_def)
    moreover have "items (deque_append d m) = drop (length (h c @ [m]) - cap) (h c @ [m])"
      using window_step[of cap "h c" m] d by (simp add: deque_append_def Let_def)
    then have "conversation_holds cap (h c @ [m]) (Some (deque_append d m))
        (Some (md\<lparr> last_updated := now, message_count := message_count md + 1 \<rparr>))"
      using d by (simp add: conversation_holds_def deque_append_def Let_def)
    ultimately show ?thesis by blast
  qed
  then obtain d md where eq: "add_message mem now c m =
          Inr (mem\<lparr> conversations := (conversations mem)(c \<mapsto> d),
                    conversation_metadata := (conversation_metadata mem)(c \<mapsto> md) \<rparr>)"
      and new: "conversation_holds cap (h c @ [m]) (Some d) (Some md)" by blast
  have "memory_holds cap (h(c := h c @ [m]))
          (mem\<lparr> conversations := (conversations mem)(c \<mapsto> d),
                    conversation_metadata := (conversation_metadata mem)(c \<mapsto> md) \<rparr>)"
    using cap all new by (simp add: memory_holds_def)
  with eq show ?thesis by blast
qed

lemma messages_for_Cons:
  "messages_for c ((now, c', m) # calls) = (if c' = c then m # messages_for c calls else messages_for c calls)"
  by (simp add: messages_for_def)

lemma add_messages_holds:
  "memory_holds cap h mem \<Longrightarrow>
   \<exists>mem'. add_messages mem calls = Inr mem' \<and> memory_holds cap (\<lambda>c. h c @ messages_for c calls) mem'"
proof (induction calls arbitrary: h mem)
  case Nil
  then show ?case by (simp add: messages_for_def)
next
  case (Cons call calls)
  obtain now c m where call: "call = (now, c, m)" by (cases call)
  from add_message_holds[OF Cons.prems, of now c m] obtain mem1
    where 1: "add_message mem now c m = Inr mem1" "memory_holds cap (h(c := h c @ [m])) mem1" by blast
  from Cons.IH[OF 1(2)] obtain mem' where 2: "add_messages mem1 calls = Inr mem'"
     "memory_holds cap (\<lambda>x. (h(c := h c @ [m])) x @ messages_for x calls) mem'" by blast
  have "(\<lambda>x. (h(c := h c @ [m])) x @ messages_for x calls) = (\<lambda>x. h x @ messages_for x (call # calls))"
    by (auto simp: call messages_for_Cons)
  with 1 2 show ?case by (simp add: call bind_def)
qed

lemma default_memory_run:
  "\<exists>mem. add_messages (new_memory 20 6) calls = Inr mem \<and>
     (\<forall>c. conversation_holds 20 (messages_for c calls) (conversations mem c) (conversation_metadata mem c))"
proof -
  have "memory_holds 20 (\<lambda>c. []) (new_memory 20 6)"
    using new_memory_holds[of 20 6] by simp
  from add_messages_holds[OF this, of calls] show ?thesis
    by (auto simp: memory_holds_def)
qed

lemma messages_for_numbered:
  "messages_for cid (numbered_calls cid n) = map numbered_message [0..<n]"
  by (simp add: messages_for_def numbered_calls_def comp_def)

text \<open>
  Claim C9.  Starting from an empty memory of the default capacity 20, after any run of
  \<open>add_message\<close> calls that adds more than 20 messages to a conversation (other
  conversations may be served in between), every call has returned, the buffer of that
  conversation holds 20 messages, and they are exactly the 20 most recently added ones
  in insertion order: the oldest were evicted first.
\<close>

theorem buffer_keeps_last_20:
  "20 < length (messages_for cid calls) \<Longrightarrow>
   \<exists>mem d. add_messages (new_memory 20 6) calls = Inr mem \<and>
     conversations mem cid = Some d \<and> length (items d) = 20 \<and>
     items d = drop (length (messages_for cid calls) - 20) (messages_for cid calls)"
proof -
  assume n: "20 < length (messages_for cid calls)"
  from default_memory_run[of calls] obtain mem where
    m: "add_messages (new_memory 20 6) calls = Inr mem"
       "conversation_holds 20 (messages_for cid calls)
          (conversations mem cid) (conversation_metadata mem cid)"
    by blast
  from n have "messages_for cid calls \<noteq> []" by auto
  with m(2) obtain d where "conversations mem cid = Some d"
     "items d = drop (length (messages_for cid calls) - 20) (messages_for cid calls)"
    by (auto simp: conversation_holds_def)
  with m(1) n show ?thesis by simp
qed

theorem buffer_keeps_last_20_witness:
  "\<exists>mem d. add_messages (new_memory 20 6) (numbered_calls ''c1'' 25) = Inr mem \<and>
     conversations mem ''c1'' = Some d \<and> length (items d) = 20 \<and>
     items d = map numbered_message [5..<25]"
  using buffer_keeps_last_20 [of "''c1''" "numbered_calls ''c1'' 25"]
  by (simp add: messages_for_numbered drop_map)

text \<open>
  Claim C10.  After any run of \<open>add_message\<close> calls from an empty memory of the default
  capacity, the \<open>message_count\<close> of a conversation equals the number of messages ever
  added to it, while the buffer (whose length the conversation summary reports as
  \<open>total_messages\<close>) holds at most 20 of them: eviction never decrements the count.
\<close>

theorem message_count_counts_all_adds:
  "messages_for cid calls \<noteq> [] \<Longrightarrow>
   \<exists>mem md. add_messages (new_memory 20 6) calls = Inr mem \<and>
     conversation_metadata mem cid = Some md \<and>
     message_count md = length (messages_for cid calls) \<and>
     summary_total_messages mem cid = Some (min 20 (length (messages_for cid calls)))"
proof -
  assume n: "messages_for cid calls \<noteq> []"
  from default_memory_run[of calls] obtain mem where
    m: "add_messages (new_memory 20 6) calls = Inr mem"
       "conversation_holds 20 (messages_for cid calls)
          (conversations mem cid) (conversation_metadata mem cid)"
    by blast
  with n obtain d md where "conversations mem cid = Some d"
     "items d = drop (length (messages_for cid calls) - 20) (messages_for cid calls)"
     "conversation_metadata mem cid = Some md"
     "message_count md = length (messages_for cid calls)"
    by (auto simp: conversation_holds_def)
  with m(1) show ?thesis by (auto simp: summary_total_messages_def)
qed

theorem message_count_counts_all_adds_witness:
  "\<exists>mem md. add_messages (new_memory 20 6) (numbered_calls ''c1'' 25) = Inr mem \<and>
     conversation_metadata mem ''c1'' = Some md \<and> message_count md = 25 \<and>
     summary_total_messages mem ''c1'' = Some 20"
  using message_count_counts_all_adds [of "''c1''" "numbered_calls ''c1'' 25"]
  by (simp add: messages_for_numbered)

section \<open>Query analysis always returns\<close>

text \<open>
  \<open>split\<close> never yields an empty word, so the \<open>word[0]\<close> of the entity loop never
  fails, and the complexity score lies between 0 and 1.
\<close>

lemma split_from_nonempty: "[] \<notin> set (split_from cur s)"
  by (induction s arbitrary: cur) auto

lemma split_nonempty: "[] \<notin> set (split s)"
  using split_from_nonempty by (simp add: split_def)

lemma extract_entities_loop_total:
  "[] \<notin> set ws \<Longrightarrow> \<exists>es. extract_entities_loop ws = Inr es"
proof (induction ws)
  case Nil
  then show ?case by simp
next
  case (Cons w ws)
  then obtain es where "extract_entities_loop ws = Inr es" by auto
  moreover from Cons.prems obtain c cs where "w = c # cs" by (cases w) auto
  ultimately show ?case by simp
qed

lemma calculate_complexity_range:
  "0 \<le> calculate_complexity text entities \<and> calculate_complexity text entities \<le> 1"
  by (simp add: calculate_complexity_def Let_def min_def)

lemma analyze_query_total:
  "\<exists>q. analyze_query qid s = Inr q \<and> query_id q = qid \<and> query_text q = s \<and>
       0 \<le> complexity_score q \<and> complexity_score q \<le> 1"
proof -
  obtain es where "extract_entities s = Inr es"
    using extract_entities_loop_total[OF split_nonempty] by (auto simp: extract_entities_def)
  then show ?thesis
    using calculate_complexity_range[of s es]
    by (simp add: analyze_query_def Let_def)
qed

section \<open>Results of the strategies\<close>

text \<open>
  The results of a tool do not depend on the trace it extends, which gives the outcome of
  every strategy and the response of \<open>retrieve\<close>.
\<close>

lemma vector_retrieval_fst:
  "fst (vector_retrieval e q n chain) = fst (vector_retrieval e q n [])"
  by (simp add: vector_retrieval_def Let_def split: sum.splits)

lemma graph_retrieval_fst:
  "fst (graph_retrieval e q n chain) = fst (graph_retrieval e q n [])"
  by (simp add: graph_retrieval_def Let_def split: sum.splits)

lemma hybrid_retrieval_fst:
  "fst (hybrid_retrieval e q m chain) =
     merge_results m
       (fst (vector_retrieval e q (m div 2) []) @ fst (graph_retrieval e q (m div 2) []))"
  using vector_retrieval_fst[of e q "m div 2" "chain @ [Hybrid_search]"]
        graph_retrieval_fst[of e q "m div 2"
          "snd (vector_retrieval e q (m div 2) (chain @ [Hybrid_search]))"]
  by (simp add: hybrid_retrieval_def merge_results_def bind_def Let_def case_prod_beta
           split: sum.splits)

lemma adaptive_retrieval_fst:
  "fst (adaptive_retrieval e q m chain) = adaptive_spec e q m"
proof -
  let ?c1 = "chain @ [Adaptive_search]"
  let ?c2 = "snd (vector_retrieval e q (m div 3) ?c1)"
  have v: "fst (vector_retrieval e q (m div 3) ?c1) = fst (vector_retrieval e q (m div 3) [])"
    by (rule vector_retrieval_fst)
  have g: "fst (graph_retrieval e q (m div 3) ?c2) = fst (graph_retrieval e q (m div 3) [])"
    by (rule graph_retrieval_fst)
  have h: "fst (hybrid_retrieval e q m ?c2) = fst (hybrid_retrieval e q m [])"
    by (simp add: hybrid_retrieval_fst)
  show ?thesis
    using v g h
    by (simp add: adaptive_retrieval_def adaptive_spec_def bind_def Let_def case_prod_beta
             split: sum.splits)
qed

lemma length_py_take: "0 \<le> n \<Longrightarrow> length (py_take n xs) \<le> nat n"
  by (simp add: py_take_def)

lemma length_sliced_outcome:
  "0 \<le> n \<Longrightarrow> length (results_of (bind outcome (\<lambda>xs. Inr (py_take n xs)))) \<le> nat n"
  by (cases outcome) (simp_all add: bind_def results_of_def length_py_take)

lemma run_strategy_results:
  "fst (run_strategy e strategy q m chain) = strategy_results e strategy q m"
  using vector_retrieval_fst[of e q m chain] graph_retrieval_fst[of e q m chain]
        hybrid_retrieval_fst[of e q m chain] hybrid_retrieval_fst[of e q m "[]"]
        adaptive_retrieval_fst[of e q m chain]
  by (cases strategy)
     (simp_all add: run_strategy_def strategy_results_def case_prod_beta filter_retrieval_def)

lemma calculate_confidence_Nil: "calculate_confidence [] q = 0"
  by (simp add: calculate_confidence_def)

lemma retrieve_total:
  "\<exists>q resp. analyze_query qid s = Inr q \<and> query_text q = s \<and>
     retrieve e qid s strategy m ctx = Inr resp \<and>
     results resp
       = results_of (strategy_results e (chosen_strategy strategy (q\<lparr>query_context := ctx\<rparr>))
                      (q\<lparr>query_context := ctx\<rparr>) m) \<and>
     total_results resp = length (results resp) \<and>
     confidence_score resp = calculate_confidence (results resp) (q\<lparr>query_context := ctx\<rparr>) \<and>
     strategy_used resp = strategy_value (chosen_strategy strategy (q\<lparr>query_context := ctx\<rparr>)) \<and>
     reasoning_chain resp
       = snd (run_strategy e (chosen_strategy strategy (q\<lparr>query_context := ctx\<rparr>))
                (q\<lparr>query_context := ctx\<rparr>) m
                [analysis_step (q\<lparr>query_context := ctx\<rparr>)
                   (chosen_strategy strategy (q\<lparr>query_context := ctx\<rparr>))])
         @ (case strategy_results e (chosen_strategy strategy (q\<lparr>query_context := ctx\<rparr>))
                   (q\<lparr>query_context := ctx\<rparr>) m of
              Inl err \<Rightarrow> [Error_step err] | Inr rs \<Rightarrow> [])"
proof -
  obtain q where q: "analyze_query qid s = Inr q" "query_text q = s"
    using analyze_query_total[of qid s] by blast
  let ?q = "q\<lparr>query_context := ctx\<rparr>"
  let ?st = "chosen_strategy strategy ?q"
  let ?c0 = "[analysis_step ?q ?st]"
  obtain chain where r: "run_strategy e ?st ?q m ?c0 = (strategy_results e ?st ?q m, chain)"
    using run_strategy_results[of e ?st ?q m ?c0] by (cases "run_strategy e ?st ?q m ?c0") simp
  show ?thesis
  proof (cases "strategy_results e ?st ?q m")
    case (Inl err)
    have "retrieve e qid s strategy m ctx =
      Inr \<lparr> response_query_id = query_id ?q, strategy_used = strategy_value ?st,
            results = [], reasoning_chain = chain @ [Error_step err],
            total_results = 0, confidence_score = 0 \<rparr>"
      using q r Inl unfolding retrieve_def bind_def Let_def chosen_strategy_def[symmetric]
      by simp
    with q r Inl show ?thesis
      by (simp add: results_of_def calculate_confidence_Nil)
  next
    case (Inr rs)
    have "retrieve e qid s strategy m ctx =
      Inr \<lparr> response_query_id = query_id ?q, strategy_used = strategy_value ?st,
            results = rs, reasoning_chain = chain,
            total_results = length rs,
            confidence_score = calculate_confidence rs ?q \<rparr>"
      using q r Inr unfolding retrieve_def bind_def Let_def chosen_strategy_def[symmetric]
      by simp
    with q r Inr show ?thesis
      by (simp add: results_of_def)
  qed
qed

section \<open>Properties of the adaptive strategy\<close>

lemma apple_eval:
  "\<not> isl (adaptive_spec apple_env (query_with ''general_search'' 0.8) 10) \<and>
   map score (results_of (adaptive_spec apple_env (query_with ''general_search'' 0.8) 10))
     = [0.9, 0.85, 0.8, 0.9]"
  by code_simp

text \<open>
  Claim C1.  For every query and every \<open>max_results\<close>, the adaptive strategy returns what
  the specification describes: a vector-only pass requesting \<open>max_results div 3\<close>
  results; if that pass is non-empty with a mean score above 0.7, its results
  supplemented by a graph pass at \<open>max_results div 3\<close>; otherwise the outcome of a hybrid
  run at the full \<open>max_results\<close>; the list sliced with \<open>[:max_results]\<close>, so that it has at
  most \<open>max_results\<close> elements when that number is not negative.  \<open>retrieve\<close> with the
  adaptive strategy returns a response with exactly these results (none when the hybrid
  run raised).
\<close>

theorem adaptive_strategy_passes:
  "fst (adaptive_retrieval e query max_results chain) = adaptive_spec e query max_results \<and>
   (0 \<le> max_results \<longrightarrow>
      length (results_of (fst (adaptive_retrieval e query max_results chain)))
        \<le> nat max_results) \<and>
   (\<exists>q resp. analyze_query qid s = Inr q \<and>
      retrieve e qid s (Some ADAPTIVE) max_results ctx = Inr resp \<and>
      results resp = results_of (adaptive_spec e (q\<lparr>query_context := ctx\<rparr>) max_results))"
proof -
  have a: "fst (adaptive_retrieval e query max_results chain) = adaptive_spec e query max_results"
    by (rule adaptive_retrieval_fst)
  have "length (results_of (adaptive_spec e query max_results)) \<le> nat max_results"
    if "0 \<le> max_results"
    using that unfolding adaptive_spec_def Let_def by (rule length_sliced_outcome)
  moreover have "\<exists>q resp. analyze_query qid s = Inr q \<and>
      retrieve e qid s (Some ADAPTIVE) max_results ctx = Inr resp \<and>
      results resp = results_of (adaptive_spec e (q\<lparr>query_context := ctx\<rparr>) max_results)"
    using retrieve_total[of qid s e "Some ADAPTIVE" max_results ctx]
    by (auto simp: chosen_strategy_def strategy_results_def)
  ultimately show ?thesis using a by simp
qed

text \<open>
  The scenario of the specification: the vector pass returns three results of mean
  score 0.85, and the graph result is appended to them.
\<close>

theorem adaptive_strategy_passes_witness:
  "\<not> isl (fst (adaptive_retrieval apple_env (query_with ''general_search'' 0.8) 10 [])) \<and>
   map score (results_of
       (fst (adaptive_retrieval apple_env (query_with ''general_search'' 0.8) 10 [])))
     = [0.9, 0.85, 0.8, 0.9] \<and>
   length (results_of
       (fst (adaptive_retrieval apple_env (query_with ''general_search'' 0.8) 10 []))) \<le> 10"
proof -
  note t = adaptive_strategy_passes [of apple_env "query_with ''general_search'' 0.8" 10 "[]"
             "''q1''" "''Apple''" None]
  from t have a: "fst (adaptive_retrieval apple_env (query_with ''general_search'' 0.8) 10 [])
                  = adaptive_spec apple_env (query_with ''general_search'' 0.8) 10"
    by blast
  from t have "(0::int) \<le> 10 \<longrightarrow>
      length (results_of
         (fst (adaptive_retrieval apple_env (query_with ''general_search'' 0.8) 10 [])))
        \<le> nat 10"
    by blast
  then have b: "length (results_of
         (fst (adaptive_retrieval apple_env (query_with ''general_search'' 0.8) 10 []))) \<le> 10"
    by simp
  from a apple_eval
  have "\<not> isl (fst (adaptive_retrieval apple_env (query_with ''general_search'' 0.8) 10 [])) \<and>
        map score (results_of
          (fst (adaptive_retrieval apple_env (query_with ''general_search'' 0.8) 10 [])))
          = [0.9, 0.85, 0.8, 0.9]"
    by simp
  with b show ?thesis by blast
qed

section \<open>Ranking of the results\<close>

text \<open>
  The hybrid strategy sorts its merged results, so its list is always ranked.
\<close>

lemma ranked_descending_take: "ranked_descending rs \<Longrightarrow> ranked_descending (py_take n rs)"
  by (simp add: ranked_descending_def py_take_def)

lemma ranked_descending_sort: "ranked_descending (sort_by_score rs)"
proof -
  have "sorted (map (\<lambda>x. - score x) (sort_by_score rs))"
    by (simp add: sort_by_score_def)
  then show ?thesis
    by (simp add: ranked_descending_def sorted_wrt_map)
qed

lemma merge_results_ranked: "ranked_descending (results_of (merge_results m xs))"
proof (cases "dedup {} xs")
  case (Inl err)
  then show ?thesis
    by (simp add: merge_results_def bind_def results_of_def ranked_descending_def)
next
  case (Inr u)
  then show ?thesis
    by (simp add: merge_results_def bind_def results_of_def ranked_descending_take
          ranked_descending_sort)
qed

lemma hybrid_ranked: "ranked_descending (results_of (fst (hybrid_retrieval e q m chain)))"
  by (simp add: hybrid_retrieval_fst merge_results_ranked)

text \<open>
  Claim C5 fails on the supplement branch of the adaptive strategy, which appends the
  graph results to the vector results without sorting: on the first store \<open>retrieve\<close>
  returns the scores 0.9, 0.85, 0.8, 0.9, which are not ranked descending.
\<close>

theorem adaptive_supplement_not_ranked:
  "map score (results (projr (retrieve apple_env ''q1'' ''Apple'' (Some ADAPTIVE) 10 None)))
     = [0.9, 0.85, 0.8, 0.9] \<and>
   \<not> ranked_descending (results (projr (retrieve apple_env ''q1'' ''Apple'' (Some ADAPTIVE) 10 None)))"
  by code_simp

section \<open>The filter-only strategy\<close>

text \<open>
  Claim C6 fails on \<open>_filter_retrieval\<close>, which its own comments call a placeholder:
  whatever the query and the stores hold, it reads no filter condition, queries nothing
  and returns the empty list, so \<open>retrieve\<close> with the filter-only strategy returns no
  record and confidence 0.
\<close>

theorem filter_strategy_is_placeholder:
  "filter_retrieval query max_results chain = ([], chain @ [Logical_filter, Filter_results 0]) \<and>
   (\<exists>resp. retrieve e qid s (Some LOGICAL_FILTER) max_results ctx = Inr resp \<and>
      results resp = [] \<and> confidence_score resp = 0)"
  using retrieve_total[of qid s e "Some LOGICAL_FILTER" max_results ctx]
  by (auto simp: filter_retrieval_def chosen_strategy_def strategy_results_def
        calculate_confidence_def results_of_def)

section \<open>Properties of the confidence score\<close>

lemma sum_list_nonneg_scores:
  "\<forall>r\<in>set rs. 0 \<le> score r \<Longrightarrow> 0 \<le> sum_list (map score rs)"
  by (induction rs) auto

lemma mean_nonneg: "\<forall>r\<in>set rs. 0 \<le> score r \<Longrightarrow> 0 \<le> mean (map score rs)"
  by (simp add: mean_def sum_list_nonneg_scores)

lemma calculate_confidence_upper: "calculate_confidence rs q \<le> 1"
  by (simp add: calculate_confidence_def Let_def)

lemma calculate_confidence_lower:
  assumes "\<forall>r\<in>set rs. 0 \<le> score r" and "complexity_score q \<le> 1"
  shows "0 \<le> calculate_confidence rs q"
proof (cases "rs = []")
  case True
  then show ?thesis by (simp add: calculate_confidence_def)
next
  case False
  have a: "0 \<le> mean (map score rs) * 0.5" using mean_nonneg[OF assms(1)] by simp
  have b: "0 \<le> min (real (length rs) / 10) 1.0 * 0.2" by simp
  have c: "0 \<le> (1.0 - complexity_score q * 0.3) * 0.2" using assms(2) by simp
  have d: "0 \<le> real (card (set (map source_type rs))) / 3 * 0.1" by simp
  from a b c d have "0 \<le> mean (map score rs) * 0.5 + min (real (length rs) / 10) 1.0 * 0.2
      + (1.0 - complexity_score q * 0.3) * 0.2 + real (card (set (map source_type rs))) / 3 * 0.1"
    by linarith
  with False show ?thesis by (simp add: calculate_confidence_def Let_def)
qed

text \<open>
  Claim C4, as the code has it.  For an empty result list the confidence is 0; for a
  non-empty one it is mean score * 0.5 + min(count/10, 1) * 0.2 + (1 - complexity * 0.3)
  * 0.2 + (distinct source types / 3) * 0.1, clamped from above at 1 only.  It is at
  most 1 always, and at least 0 whenever no result has a negative score (and the
  complexity is at most 1, as it is for every analyzed query); so the response of
  \<open>retrieve\<close> has a confidence of at most 1, and of at least 0 when its results have
  no negative score.
\<close>

theorem confidence_formula_and_range:
  "calculate_confidence [] query = 0 \<and>
   (rs \<noteq> [] \<longrightarrow>
      calculate_confidence rs query =
        min (mean (map score rs) * 0.5 + min (real (length rs) / 10) 1 * 0.2
             + (1 - complexity_score query * 0.3) * 0.2
             + real (card (set (map source_type rs))) / 3 * 0.1) 1) \<and>
   calculate_confidence rs query \<le> 1 \<and>
   ((\<forall>r\<in>set rs. 0 \<le> score r) \<and> complexity_score query \<le> 1 \<longrightarrow>
      0 \<le> calculate_confidence rs query) \<and>
   (\<exists>resp. retrieve e qid s strategy max_results ctx = Inr resp \<and>
      confidence_score resp \<le> 1 \<and>
      ((\<forall>r\<in>set (results resp). 0 \<le> score r) \<longrightarrow> 0 \<le> confidence_score resp))"
proof -
  obtain q resp where r: "analyze_query qid s = Inr q"
      "retrieve e qid s strategy max_results ctx = Inr resp"
      "confidence_score resp = calculate_confidence (results resp) (q\<lparr>query_context := ctx\<rparr>)"
    using retrieve_total[of qid s e strategy max_results ctx] by blast
  have "complexity_score (q\<lparr>query_context := ctx\<rparr>) \<le> 1"
    using analyze_query_total[of qid s] r(1) by auto
  then have "(\<forall>r\<in>set (results resp). 0 \<le> score r) \<longrightarrow> 0 \<le> confidence_score resp"
    using calculate_confidence_lower[of "results resp" "q\<lparr>query_context := ctx\<rparr>"] r(3) by simp
  moreover have "confidence_score resp \<le> 1"
    using calculate_confidence_upper r(3) by simp
  ultimately have "\<exists>resp. retrieve e qid s strategy max_results ctx = Inr resp \<and>
      confidence_score resp \<le> 1 \<and>
      ((\<forall>r\<in>set (results resp). 0 \<le> score r) \<longrightarrow> 0 \<le> confidence_score resp)"
    using r(2) by blast
  moreover have "calculate_confidence [] query = 0"
    by (simp add: calculate_confidence_def)
  moreover have "rs \<noteq> [] \<longrightarrow>
      calculate_confidence rs query =
        min (mean (map score rs) * 0.5 + min (real (length rs) / 10) 1 * 0.2
             + (1 - complexity_score query * 0.3) * 0.2
             + real (card (set (map source_type rs))) / 3 * 0.1) 1"
    by (simp add: calculate_confidence_def Let_def)
  ultimately show ?thesis
    using calculate_confidence_upper[of rs query] calculate_confidence_lower[of rs query]
    by blast
qed

lemma apple_retrieve_eval:
  "\<not> isl (retrieve apple_env ''q1'' ''Apple'' (Some HYBRID) 10 None) \<and>
   map score (results (projr (retrieve apple_env ''q1'' ''Apple'' (Some HYBRID) 10 None)))
     = [0.9, 0.9, 0.85, 0.8]"
  by code_simp

theorem confidence_formula_and_range_witness:
  "calculate_confidence
     [\<lparr> result_id = ''d1'', content = Some ''pear'', score = 0.8, source_type = ''vector'',
        metadata = [], reasoning = None \<rparr>] (query_with ''general_search'' 0.5) = 187 / 300 \<and>
   (\<exists>resp. retrieve apple_env ''q1'' ''Apple'' (Some HYBRID) 10 None = Inr resp \<and>
      0 \<le> confidence_score resp \<and> confidence_score resp \<le> 1)"
proof -
  let ?r = "\<lparr> result_id = ''d1'', content = Some ''pear'', score = 0.8, source_type = ''vector'',
        metadata = [], reasoning = None \<rparr>"
  note t = confidence_formula_and_range [of "query_with ''general_search'' 0.5" "[?r]"
             apple_env "''q1''" "''Apple''" "Some HYBRID" 10 None]
  from t have "calculate_confidence [?r] (query_with ''general_search'' 0.5)
      = min (mean (map score [?r]) * 0.5 + min (real (length [?r]) / 10) 1 * 0.2
             + (1 - complexity_score (query_with ''general_search'' 0.5) * 0.3) * 0.2
             + real (card (set (map source_type [?r]))) / 3 * 0.1) 1"
    by blast
  then have a: "calculate_confidence [?r] (query_with ''general_search'' 0.5) = 187 / 300"
    by (simp add: mean_def query_with_def)
  from t obtain resp where r: "retrieve apple_env ''q1'' ''Apple'' (Some HYBRID) 10 None = Inr resp"
    "confidence_score resp \<le> 1"
    "(\<forall>r\<in>set (results resp). 0 \<le> score r) \<longrightarrow> 0 \<le> confidence_score resp"
    by blast
  from r(1) apple_retrieve_eval have "map score (results resp) = [0.9, 0.9, 0.85, 0.8]"
    by simp
  then have "\<forall>x\<in>set (map score (results resp)). 0 \<le> x" by simp
  then have "\<forall>r\<in>set (results resp). 0 \<le> score r" by simp
  with r a show ?thesis by blast
qed

text \<open>
  Claim C4 as stated (the confidence is never below 0) fails: a document at distance 2
  gets the score \<open>1 - 2 = -1\<close>, and the confidence of the response is negative.
\<close>

theorem negative_confidence:
  "confidence_score (projr (retrieve far_env ''q1'' ''pear'' (Some VECTOR_ONLY) 10 None)) < 0"
  by code_simp

section \<open>Failures stay inside the engine\<close>















































end
